theory Spec2Isabelle
  imports Main
begin

section \<open>The session store of the ZKP authentication server\<close>

text \<open>
  A shallow embedding of \<^verbatim>\<open>internal/database/database.go\<close>, of the schema it runs
  against and of the start-up path of \<^verbatim>\<open>main.go\<close>.

  The relational store is an explicit state: three tables (lists of rows, in insertion
  order) and the three SERIAL sequences. Every method of \<^verbatim>\<open>*Database\<close> takes the
  store and returns its Go result, and the store it leaves behind when it writes.
  What the methods read from outside is an argument too (the record \<open>env\<close>): the
  clock, the identifier \<^verbatim>\<open>uuid.New().String()\<close> hands out, and which round trips to
  the server fail in transport (a lost connection, a cancelled context).

  Conventions.
  \<^item> Time is an integer number of microseconds. \<^verbatim>\<open>time.Now()\<close>, \<^verbatim>\<open>NOW()\<close> and
    \<^verbatim>\<open>CURRENT_TIMESTAMP\<close> read one clock, \<open>now\<close>; a \<^verbatim>\<open>time.Duration\<close> is an integer
    and may be negative.
  \<^item> A \<^verbatim>\<open>*big.Int\<close> argument is an \<open>int option\<close>, \<open>None\<close> the nil pointer; a
    \<^verbatim>\<open>big.Int\<close> read back is an \<open>int\<close>.
  \<^item> The columns \<^verbatim>\<open>auth_id\<close> and \<^verbatim>\<open>session_id\<close> have SQL type UUID. A row holds
    the value as the text the server prints for it (32 lower-case hexadecimal
    digits in groups of 8, 4, 4, 4 and 12). A text handed to a statement for such a
    column is read by \<open>uuid_in\<close>, as the server reads it: text that is no UUID makes
    the statement fail, and every spelling of a UUID denotes the same value.
  \<^item> Usernames are taken to be valid UTF-8.
  \<^item> A Go \<^verbatim>\<open>error\<close> is a value of the datatype \<open>error\<close>, one constructor per
    \<^verbatim>\<open>fmt.Errorf\<close> of the source; a constructor with an argument wraps (\<^verbatim>\<open>%w\<close>) the
    error of the store.
\<close>

subsection \<open>Decimal text of big integers\<close>

text \<open>
  \<^verbatim>\<open>(*big.Int).String\<close> and \<^verbatim>\<open>(*big.Int).SetString(s, 10)\<close> belong to Go's
  \<^verbatim>\<open>math/big\<close>. \<open>Int_String\<close> prints \<^verbatim>\<open><nil>\<close> for a nil pointer, and otherwise an
  optional minus sign and the decimal digits without leading zeros. \<open>Int_SetString\<close>
  reads an optional sign and then digits up to the end of the text; it returns the
  value it leaves in a receiver that was zero, and whether the whole text was a
  number. After a failure the receiver holds what had been scanned: zero when
  there was no digit, the digits read so far when something follows them.
\<close>

definition digit_char :: "nat \<Rightarrow> char" where
  "digit_char d = char_of (48 + d)"

definition is_digit :: "char \<Rightarrow> bool" where
  "is_digit c = (48 \<le> (of_char c :: nat) \<and> (of_char c :: nat) \<le> 57)"

definition digit_val :: "char \<Rightarrow> nat" where
  "digit_val c = of_char c - 48"

fun utoa :: "nat \<Rightarrow> string" where
  "utoa n = (if n < 10 then [digit_char n] else utoa (n div 10) @ [digit_char (n mod 10)])"

declare utoa.simps [simp del]

definition Text10 :: "int \<Rightarrow> string" where
  "Text10 x = (if x < 0 then CHR ''-'' # utoa (nat (- x)) else utoa (nat x))"

definition Int_String :: "int option \<Rightarrow> string" where
  "Int_String x = (case x of None \<Rightarrow> ''<nil>'' | Some v \<Rightarrow> Text10 v)"

definition scanSign :: "string \<Rightarrow> (bool \<times> string) option" where
  "scanSign s =
     (case s of
        [] \<Rightarrow> None
      | c # cs \<Rightarrow>
          if c = CHR ''-'' then Some (True, cs)
          else if c = CHR ''+'' then Some (False, cs)
          else Some (False, s))"

definition nat_scan :: "string \<Rightarrow> (nat \<times> string) option" where
  "nat_scan s =
     (let ds = takeWhile is_digit s in
      if ds = [] then None
      else Some (foldl (\<lambda>a c. 10 * a + digit_val c) 0 ds, dropWhile is_digit s))"

definition Int_SetString :: "string \<Rightarrow> int \<times> bool" where
  "Int_SetString s =
     (case scanSign s of
        None \<Rightarrow> (0, False)
      | Some (neg, r) \<Rightarrow>
          (case nat_scan r of
             None \<Rightarrow> (0, False)
           | Some (n, rest) \<Rightarrow> (if neg then - int n else int n, rest = [])))"

subsection \<open>The schema\<close>

text \<open>
  One record per table, one field per column. \<open>users_id_seq\<close>,
  \<open>auth_sessions_id_seq\<close> and \<open>active_sessions_id_seq\<close> hold the last value the
  SERIAL sequences gave out; a sequence is never rolled back.
\<close>

record users_row =
  users_id :: int
  users_username :: string
  users_y1 :: string
  users_y2 :: string
  users_created_at :: int
  users_updated_at :: int

record auth_sessions_row =
  as_id :: int
  as_auth_id :: string
  as_user_id :: int
  as_challenge_c :: string
  as_commitment_r1 :: string
  as_commitment_r2 :: string
  as_created_at :: int
  as_expires_at :: int
  as_verified :: bool

record active_sessions_row =
  ac_id :: int
  ac_session_id :: string
  ac_user_id :: int
  ac_created_at :: int
  ac_expires_at :: int
  ac_last_activity :: int

record store =
  users :: "users_row list"
  auth_sessions :: "auth_sessions_row list"
  active_sessions :: "active_sessions_row list"
  users_id_seq :: int
  auth_sessions_id_seq :: int
  active_sessions_id_seq :: int

record env =
  now :: int
  uuid_New :: string
  conn_fails :: "nat \<Rightarrow> bool"

text \<open>The errors of the store, and the errors the methods build from them.\<close>

datatype store_error =
    ErrNoRows
  | ConnFailure
  | UniqueViolation string
  | ForeignKeyViolation string
  | StringDataRightTruncation
  | InvalidTextRepresentation

datatype error =
    FailedToOpenDatabase store_error
  | FailedToPingDatabase store_error
  | FailedToRegisterUser store_error
  | UserNotFound
  | FailedToGetUser store_error
  | FailedToBeginTransaction store_error
  | FailedToGetUserID store_error
  | FailedToCreateAuthSession store_error
  | FailedToCommitTransaction store_error
  | AuthSessionNotFoundOrExpired
  | FailedToGetAuthSession store_error
  | FailedToVerifyAuthSession store_error
  | FailedToCreateActiveSession store_error
  | SessionNotFoundOrExpired
  | FailedToGetSession store_error
  | StoreError store_error

text \<open>\<^verbatim>\<open>errors.Unwrap\<close>: the error of the store a \<^verbatim>\<open>%w\<close> carries along.\<close>

fun Unwrap :: "error \<Rightarrow> store_error option" where
  "Unwrap (FailedToOpenDatabase x) = Some x"
| "Unwrap (FailedToPingDatabase x) = Some x"
| "Unwrap (FailedToRegisterUser x) = Some x"
| "Unwrap UserNotFound = None"
| "Unwrap (FailedToGetUser x) = Some x"
| "Unwrap (FailedToBeginTransaction x) = Some x"
| "Unwrap (FailedToGetUserID x) = Some x"
| "Unwrap (FailedToCreateAuthSession x) = Some x"
| "Unwrap (FailedToCommitTransaction x) = Some x"
| "Unwrap AuthSessionNotFoundOrExpired = None"
| "Unwrap (FailedToGetAuthSession x) = Some x"
| "Unwrap (FailedToVerifyAuthSession x) = Some x"
| "Unwrap (FailedToCreateActiveSession x) = Some x"
| "Unwrap SessionNotFoundOrExpired = None"
| "Unwrap (FailedToGetSession x) = Some x"
| "Unwrap (StoreError x) = None"

text \<open>The structs the methods return.\<close>

record User =
  User_ID :: int
  User_Username :: string
  Y1 :: int
  Y2 :: int
  User_CreatedAt :: int
  User_UpdatedAt :: int

record AuthSession =
  AuthSession_ID :: int
  AuthSession_Username :: string
  AuthID :: string
  AuthSession_UserID :: int
  ChallengeC :: int
  CommitmentR1 :: int
  CommitmentR2 :: int
  AuthSession_CreatedAt :: int
  AuthSession_ExpiresAt :: int
  Verified :: bool

record ActiveSession =
  ActiveSession_ID :: int
  SessionID :: string
  ActiveSession_UserID :: int
  ActiveSession_CreatedAt :: int
  ActiveSession_ExpiresAt :: int
  LastActivity :: int

subsection \<open>Identifiers\<close>

text \<open>
  The input function of the server for the type UUID. An opening brace may come
  first. Then sixteen bytes follow, each two hexadecimal digits in either case; a
  hyphen may follow the byte of index \<open>i\<close> when \<open>i\<close> is odd and the byte is not the
  last. The closing brace comes last when the text opened with one, and nothing may
  follow. \<open>uuid_in\<close> returns the text the server prints for the value read, or
  \<open>None\<close> for the error \<^verbatim>\<open>invalid input syntax for type uuid\<close>.
\<close>

definition is_xdigit :: "char \<Rightarrow> bool" where
  "is_xdigit c =
     (let n = (of_char c :: nat)
      in (48 \<le> n \<and> n \<le> 57) \<or> (65 \<le> n \<and> n \<le> 70) \<or> (97 \<le> n \<and> n \<le> 102))"

definition hex_lower :: "char \<Rightarrow> char" where
  "hex_lower c =
     (if c = CHR ''A'' then CHR ''a'' else if c = CHR ''B'' then CHR ''b''
      else if c = CHR ''C'' then CHR ''c'' else if c = CHR ''D'' then CHR ''d''
      else if c = CHR ''E'' then CHR ''e'' else if c = CHR ''F'' then CHR ''f''
      else c)"

fun uuid_bytes :: "bool list \<Rightarrow> string \<Rightarrow> (string \<times> string) option" where
  "uuid_bytes [] src = Some ([], src)"
| "uuid_bytes (hyphen # flags) src =
     (case src of
        a # b # rest \<Rightarrow>
          if is_xdigit a \<and> is_xdigit b then
            (case uuid_bytes flags
                    (if hyphen \<and> take 1 rest = ''-'' then drop 1 rest else rest) of
               None \<Rightarrow> None
             | Some (ds, t) \<Rightarrow> Some (hex_lower a # hex_lower b # ds, t))
          else None
      | _ \<Rightarrow> None)"

definition hyphen_after :: "bool list" where
  "hyphen_after = map (\<lambda>i. i mod 2 = 1 \<and> i < 15) [0 ..< 16]"

definition uuid_out :: "string \<Rightarrow> string" where
  "uuid_out ds =
     take 8 ds @ ''-'' @ take 4 (drop 8 ds) @ ''-'' @ take 4 (drop 12 ds) @ ''-'' @
     take 4 (drop 16 ds) @ ''-'' @ drop 20 ds"

definition uuid_in :: "string \<Rightarrow> string option" where
  "uuid_in source =
     (let braces = (take 1 source = ''{'');
          src = (if braces then drop 1 source else source)
      in case uuid_bytes hyphen_after src of
           None \<Rightarrow> None
         | Some (ds, t) \<Rightarrow>
             if (if braces then t = ''}'' else t = []) then Some (uuid_out ds) else None)"

subsection \<open>The statements\<close>

text \<open>
  \<^verbatim>\<open>VARCHAR(255)\<close> counts characters: the bytes of the UTF-8 text that do not
  continue a character.
\<close>

definition char_length :: "string \<Rightarrow> nat" where
  "char_length s =
     length (filter (\<lambda>c. \<not> (128 \<le> (of_char c :: nat) \<and> (of_char c :: nat) < 192)) s)"

text \<open>
  \<^verbatim>\<open>INSERT INTO users (username, y1, y2) VALUES ($1, $2, $3)\<close>. The default of
  \<^verbatim>\<open>id\<close> takes the next value of the sequence before the row is checked, so a
  refused row uses one up.
\<close>

definition insert_users :: "env \<Rightarrow> store \<Rightarrow> string \<Rightarrow> string \<Rightarrow> string \<Rightarrow> store_error option \<times> store" where
  "insert_users e db username y1 y2 =
     (let db1 = db\<lparr>users_id_seq := users_id_seq db + 1\<rparr> in
      if 255 < char_length username then (Some StringDataRightTruncation, db1)
      else if list_ex (\<lambda>u. users_username u = username) (users db)
        then (Some (UniqueViolation ''users_username_key''), db1)
      else (None, db1\<lparr>users := users db @
              [\<lparr>users_id = users_id_seq db + 1, users_username = username,
                users_y1 = y1, users_y2 = y2,
                users_created_at = now e, users_updated_at = now e\<rparr>]\<rparr>))"

text \<open>
  \<^verbatim>\<open>INSERT INTO auth_sessions (auth_id, user_id, challenge_c, commitment_r1,
  commitment_r2, expires_at) VALUES ($1, $2, $3, $4, $5, $6)\<close>.
\<close>

definition insert_auth_sessions ::
  "env \<Rightarrow> store \<Rightarrow> string \<Rightarrow> int \<Rightarrow> string \<Rightarrow> string \<Rightarrow> string \<Rightarrow> int \<Rightarrow> store_error option \<times> store" where
  "insert_auth_sessions e db authID userID c r1 r2 expiresAt =
     (case uuid_in authID of
        None \<Rightarrow> (Some InvalidTextRepresentation, db)
      | Some a \<Rightarrow>
         (let db1 = db\<lparr>auth_sessions_id_seq := auth_sessions_id_seq db + 1\<rparr> in
          if list_ex (\<lambda>r. as_auth_id r = a) (auth_sessions db)
            then (Some (UniqueViolation ''auth_sessions_auth_id_key''), db1)
          else if \<not> list_ex (\<lambda>u. users_id u = userID) (users db)
            then (Some (ForeignKeyViolation ''auth_sessions_user_id_fkey''), db1)
          else (None, db1\<lparr>auth_sessions := auth_sessions db @
                  [\<lparr>as_id = auth_sessions_id_seq db + 1, as_auth_id = a,
                    as_user_id = userID, as_challenge_c = c, as_commitment_r1 = r1,
                    as_commitment_r2 = r2, as_created_at = now e,
                    as_expires_at = expiresAt, as_verified = False\<rparr>]\<rparr>)))"

text \<open>
  \<^verbatim>\<open>INSERT INTO active_sessions (session_id, user_id, expires_at) VALUES ($1, $2, $3)\<close>.
\<close>

definition insert_active_sessions ::
  "env \<Rightarrow> store \<Rightarrow> string \<Rightarrow> int \<Rightarrow> int \<Rightarrow> store_error option \<times> store" where
  "insert_active_sessions e db sessionID userID expiresAt =
     (case uuid_in sessionID of
        None \<Rightarrow> (Some InvalidTextRepresentation, db)
      | Some s \<Rightarrow>
         (let db1 = db\<lparr>active_sessions_id_seq := active_sessions_id_seq db + 1\<rparr> in
          if list_ex (\<lambda>r. ac_session_id r = s) (active_sessions db)
            then (Some (UniqueViolation ''active_sessions_session_id_key''), db1)
          else if \<not> list_ex (\<lambda>u. users_id u = userID) (users db)
            then (Some (ForeignKeyViolation ''active_sessions_user_id_fkey''), db1)
          else (None, db1\<lparr>active_sessions := active_sessions db @
                  [\<lparr>ac_id = active_sessions_id_seq db + 1, ac_session_id = s,
                    ac_user_id = userID, ac_created_at = now e,
                    ac_expires_at = expiresAt, ac_last_activity = now e\<rparr>]\<rparr>)))"

text \<open>
  \<^verbatim>\<open>UPDATE auth_sessions SET verified = true WHERE auth_id = $1 RETURNING user_id\<close>,
  read with \<^verbatim>\<open>QueryRowContext(...).Scan\<close>: the first row returned, or
  \<^verbatim>\<open>sql.ErrNoRows\<close>. The parameter is read as a UUID before anything is written.
\<close>

definition update_verified :: "store \<Rightarrow> string \<Rightarrow> store_error + (int \<times> store)" where
  "update_verified db authID =
     (case uuid_in authID of
        None \<Rightarrow> Inl InvalidTextRepresentation
      | Some a \<Rightarrow>
         (case find (\<lambda>r. as_auth_id r = a) (auth_sessions db) of
            None \<Rightarrow> Inl ErrNoRows
          | Some r \<Rightarrow>
              Inr (as_user_id r,
                   db\<lparr>auth_sessions :=
                        map (\<lambda>r. if as_auth_id r = a then r\<lparr>as_verified := True\<rparr> else r)
                          (auth_sessions db)\<rparr>)))"

text \<open>
  \<^verbatim>\<open>tx.Rollback()\<close>: the rows are those of the store the transaction began in; the
  sequences keep what the transaction took from them.
\<close>

definition Rollback :: "store \<Rightarrow> store \<Rightarrow> store" where
  "Rollback db0 db1 =
     db1\<lparr>users := users db0, auth_sessions := auth_sessions db0,
         active_sessions := active_sessions db0\<rparr>"

text \<open>The function \<^verbatim>\<open>cleanup_expired_sessions()\<close> of the schema.\<close>

definition cleanup_expired_sessions :: "int \<Rightarrow> store \<Rightarrow> store" where
  "cleanup_expired_sessions current_timestamp db =
     db\<lparr>auth_sessions := filter (\<lambda>r. \<not> as_expires_at r < current_timestamp) (auth_sessions db),
        active_sessions := filter (\<lambda>r. \<not> ac_expires_at r < current_timestamp) (active_sessions db)\<rparr>"

subsection \<open>The methods of Database\<close>

definition RegisterUser :: "env \<Rightarrow> store \<Rightarrow> string \<Rightarrow> int option \<Rightarrow> int option \<Rightarrow> error option \<times> store" where
  "RegisterUser e db username y1 y2 =
     (if conn_fails e 0 then (Some (FailedToRegisterUser ConnFailure), db)
      else
        (case insert_users e db username (Int_String y1) (Int_String y2) of
           (Some err, db1) \<Rightarrow> (Some (FailedToRegisterUser err), db1)
         | (None, db1) \<Rightarrow> (None, db1)))"

definition scan_User :: "users_row \<Rightarrow> User" where
  "scan_User u =
     \<lparr>User_ID = users_id u, User_Username = users_username u,
      Y1 = fst (Int_SetString (users_y1 u)), Y2 = fst (Int_SetString (users_y2 u)),
      User_CreatedAt = users_created_at u, User_UpdatedAt = users_updated_at u\<rparr>"

definition GetUserByUsername :: "env \<Rightarrow> store \<Rightarrow> string \<Rightarrow> error + User" where
  "GetUserByUsername e db username =
     (if conn_fails e 0 then Inl (FailedToGetUser ConnFailure)
      else
        (case find (\<lambda>u. users_username u = username) (users db) of
           None \<Rightarrow> Inl UserNotFound
         | Some u \<Rightarrow> Inr (scan_User u)))"

definition GetUserByID :: "env \<Rightarrow> store \<Rightarrow> int \<Rightarrow> error + User" where
  "GetUserByID e db ident =
     (if conn_fails e 0 then Inl (FailedToGetUser ConnFailure)
      else
        (case find (\<lambda>u. users_id u = ident) (users db) of
           None \<Rightarrow> Inl UserNotFound
         | Some u \<Rightarrow> Inr (scan_User u)))"

definition CreateAuthSession ::
  "env \<Rightarrow> store \<Rightarrow> string \<Rightarrow> int option \<Rightarrow> int option \<Rightarrow> int option \<Rightarrow> int \<Rightarrow> (error + string) \<times> store" where
  "CreateAuthSession e db username c r1 r2 ttl =
     (if conn_fails e 0 then (Inl (FailedToBeginTransaction ConnFailure), db)
      else if conn_fails e 1 then (Inl (FailedToGetUserID ConnFailure), db)
      else
        (case find (\<lambda>u. users_username u = username) (users db) of
           None \<Rightarrow> (Inl (FailedToGetUserID ErrNoRows), db)
         | Some u \<Rightarrow>
            (let userID = users_id u;
                 authID = uuid_New e;
                 expiresAt = now e + ttl
             in if conn_fails e 2 then (Inl (FailedToCreateAuthSession ConnFailure), db)
                else
                  (case insert_auth_sessions e db authID userID
                          (Int_String c) (Int_String r1) (Int_String r2) expiresAt of
                     (Some err, db1) \<Rightarrow> (Inl (FailedToCreateAuthSession err), Rollback db db1)
                   | (None, db1) \<Rightarrow>
                       if conn_fails e 3
                       then (Inl (FailedToCommitTransaction ConnFailure), Rollback db db1)
                       else (Inr authID, db1)))))"

definition scan_AuthSession :: "auth_sessions_row \<Rightarrow> AuthSession" where
  "scan_AuthSession r =
     \<lparr>AuthSession_ID = as_id r, AuthSession_Username = [],
      AuthID = as_auth_id r, AuthSession_UserID = as_user_id r,
      ChallengeC = fst (Int_SetString (as_challenge_c r)),
      CommitmentR1 = fst (Int_SetString (as_commitment_r1 r)),
      CommitmentR2 = fst (Int_SetString (as_commitment_r2 r)),
      AuthSession_CreatedAt = as_created_at r, AuthSession_ExpiresAt = as_expires_at r,
      Verified = as_verified r\<rparr>"

definition GetAuthSession :: "env \<Rightarrow> store \<Rightarrow> string \<Rightarrow> error + AuthSession" where
  "GetAuthSession e db authID =
     (if conn_fails e 0 then Inl (FailedToGetAuthSession ConnFailure)
      else
        (case uuid_in authID of
           None \<Rightarrow> Inl (FailedToGetAuthSession InvalidTextRepresentation)
         | Some a \<Rightarrow>
            (case find (\<lambda>r. as_auth_id r = a \<and> now e < as_expires_at r) (auth_sessions db) of
               None \<Rightarrow> Inl AuthSessionNotFoundOrExpired
             | Some r \<Rightarrow> Inr (scan_AuthSession r))))"

definition CreateActiveSession :: "env \<Rightarrow> store \<Rightarrow> string \<Rightarrow> int \<Rightarrow> (error + string) \<times> store" where
  "CreateActiveSession e db authID ttl =
     (if conn_fails e 0 then (Inl (FailedToBeginTransaction ConnFailure), db)
      else if conn_fails e 1 then (Inl (FailedToVerifyAuthSession ConnFailure), db)
      else
        (case update_verified db authID of
           Inl err \<Rightarrow> (Inl (FailedToVerifyAuthSession err), db)
         | Inr (userID, db1) \<Rightarrow>
            (let sessionID = uuid_New e;
                 expiresAt = now e + ttl
             in if conn_fails e 2 then (Inl (FailedToCreateActiveSession ConnFailure), db)
                else
                  (case insert_active_sessions e db1 sessionID userID expiresAt of
                     (Some err, db2) \<Rightarrow> (Inl (FailedToCreateActiveSession err), Rollback db db2)
                   | (None, db2) \<Rightarrow>
                       if conn_fails e 3
                       then (Inl (FailedToCommitTransaction ConnFailure), Rollback db db2)
                       else (Inr sessionID, db2)))))"

definition scan_ActiveSession :: "active_sessions_row \<Rightarrow> ActiveSession" where
  "scan_ActiveSession r =
     \<lparr>ActiveSession_ID = ac_id r, SessionID = ac_session_id r,
      ActiveSession_UserID = ac_user_id r, ActiveSession_CreatedAt = ac_created_at r,
      ActiveSession_ExpiresAt = ac_expires_at r, LastActivity = ac_last_activity r\<rparr>"

definition GetActiveSession :: "env \<Rightarrow> store \<Rightarrow> string \<Rightarrow> error + ActiveSession" where
  "GetActiveSession e db sessionID =
     (if conn_fails e 0 then Inl (FailedToGetSession ConnFailure)
      else
        (case uuid_in sessionID of
           None \<Rightarrow> Inl (FailedToGetSession InvalidTextRepresentation)
         | Some s \<Rightarrow>
            (case find (\<lambda>r. ac_session_id r = s \<and> now e < ac_expires_at r)
                    (active_sessions db) of
               None \<Rightarrow> Inl SessionNotFoundOrExpired
             | Some r \<Rightarrow> Inr (scan_ActiveSession r))))"

definition CleanupExpiredSessions :: "env \<Rightarrow> store \<Rightarrow> error option \<times> store" where
  "CleanupExpiredSessions e db =
     (if conn_fails e 0 then (Some (StoreError ConnFailure), db)
      else (None, cleanup_expired_sessions (now e) db))"

text \<open>No round trip of a call fails in transport (a call makes at most four).\<close>

definition reachable :: "env \<Rightarrow> bool" where
  "reachable e = (\<not> conn_fails e 0 \<and> \<not> conn_fails e 1 \<and> \<not> conn_fails e 2 \<and> \<not> conn_fails e 3)"

subsection \<open>Opening the store, and the start of the server\<close>

record Config =
  Config_Host :: string
  Config_Port :: int
  Config_User :: string
  Config_Password :: string
  Config_DBName :: string
  Config_SSLMode :: string

text \<open>
  The driver is an argument: what \<^verbatim>\<open>sql.Open("postgres", connStr)\<close> returns for a
  connection string, and what \<^verbatim>\<open>db.Ping()\<close> returns for the handle it gave.
\<close>

record 'h driver =
  sql_Open :: "string \<Rightarrow> store_error + 'h"
  Ping :: "'h \<Rightarrow> store_error option"

datatype 'h Database = Database 'h

definition connStr :: "Config \<Rightarrow> string" where
  "connStr cfg =
     ''host='' @ Config_Host cfg @ '' port='' @ Text10 (Config_Port cfg) @
     '' user='' @ Config_User cfg @ '' password='' @ Config_Password cfg @
     '' dbname='' @ Config_DBName cfg @ '' sslmode='' @ Config_SSLMode cfg"

definition NewDatabase :: "'h driver \<Rightarrow> Config \<Rightarrow> error + 'h Database" where
  "NewDatabase drv cfg =
     (case sql_Open drv (connStr cfg) of
        Inl err \<Rightarrow> Inl (FailedToOpenDatabase err)
      | Inr h \<Rightarrow>
          (case Ping drv h of
             Some err \<Rightarrow> Inl (FailedToPingDatabase err)
           | None \<Rightarrow> Inr (Database h)))"

text \<open>
  \<^verbatim>\<open>strconv.Atoi\<close>: an optional sign and decimal digits, within the 64-bit range.
\<close>

definition Atoi :: "string \<Rightarrow> int option" where
  "Atoi s =
     (case Int_SetString s of
        (v, ok) \<Rightarrow>
          if ok \<and> - (2 ^ 63) \<le> v \<and> v < 2 ^ 63 then Some v else None)"

definition getenvOrDefault :: "(string \<Rightarrow> string) \<Rightarrow> string \<Rightarrow> string \<Rightarrow> string" where
  "getenvOrDefault getenv key def = (let v = getenv key in if v \<noteq> [] then v else def)"

text \<open>
  What \<^verbatim>\<open>main\<close> reads: the flag \<^verbatim>\<open>--server\<close>, the result of
  \<^verbatim>\<open>cp_zkp.NewCPZKP()\<close>, the environment, the driver, and the result of the Cobra
  command. What it comes to: \<^verbatim>\<open>log.Fatal\<close>, the gRPC server started on a
  configuration (the process then waits for the interrupt), or the plain return
  after the Cobra command.
\<close>

record ('p, 'h) process =
  flag_server :: bool
  NewCPZKP :: "string + 'p"
  Getenv :: "string \<Rightarrow> string"
  sql_driver :: "'h driver"
  RootCmd_Execute :: "string option"

record ('p, 'h) server_Config =
  CPZKP :: 'p
  DB :: "'h Database option"

datatype ('p, 'h) outcome =
    LogFatal
  | RunServer "('p, 'h) server_Config"
  | Return

definition dbPort :: "(string \<Rightarrow> string) \<Rightarrow> int" where
  "dbPort getenv =
     (let p = getenv ''DB_PORT'' in
      if p \<noteq> [] then (case Atoi p of Some v \<Rightarrow> v | None \<Rightarrow> 5432) else 5432)"

definition dbCfg :: "(string \<Rightarrow> string) \<Rightarrow> Config" where
  "dbCfg getenv =
     \<lparr>Config_Host = getenvOrDefault getenv ''DB_HOST'' ''localhost'',
      Config_Port = dbPort getenv,
      Config_User = getenvOrDefault getenv ''DB_USER'' ''postgres'',
      Config_Password = getenvOrDefault getenv ''DB_PASSWORD'' ''mdl'',
      Config_DBName = getenvOrDefault getenv ''DB_NAME'' ''zkp_auth'',
      Config_SSLMode = getenvOrDefault getenv ''DB_SSLMODE'' ''disable''\<rparr>"

definition main :: "('p, 'h) process \<Rightarrow> ('p, 'h) outcome" where
  "main w =
     (if flag_server w then
        (case NewCPZKP w of
           Inl err \<Rightarrow> LogFatal
         | Inr cpzkpParams \<Rightarrow>
             (let db = (case NewDatabase (sql_driver w) (dbCfg (Getenv w)) of
                          Inl err \<Rightarrow> None
                        | Inr d \<Rightarrow> Some d)
              in RunServer \<lparr>CPZKP = cpzkpParams, DB = db\<rparr>))
      else
        (case RootCmd_Execute w of
           Some err \<Rightarrow> LogFatal
         | None \<Rightarrow> Return))"

subsection \<open>Sample data\<close>

text \<open>
  A reachable server, a clock reading and identifiers for the runs below, and a
  store with one user and one challenge of hers that expired at time 50.
\<close>

definition no_faults :: "nat \<Rightarrow> bool" where
  "no_faults k = False"

definition env_at :: "int \<Rightarrow> string \<Rightarrow> env" where
  "env_at t u = \<lparr>now = t, uuid_New = u, conn_fails = no_faults\<rparr>"

definition empty_store :: store where
  "empty_store =
     \<lparr>users = [], auth_sessions = [], active_sessions = [],
      users_id_seq = 0, auth_sessions_id_seq = 0, active_sessions_id_seq = 0\<rparr>"

definition alice :: users_row where
  "alice =
     \<lparr>users_id = 1, users_username = ''alice'',
      users_y1 = ''123456789012345678901234567890'',
      users_y2 = ''987654321098765432109876543210'',
      users_created_at = 0, users_updated_at = 0\<rparr>"

text \<open>Two session identifiers, as \<^verbatim>\<open>uuid.New().String()\<close> writes them.\<close>

definition sid_one :: string where
  "sid_one = ''0a0a0a0a-0000-4000-8000-000000000001''"

definition sid_two :: string where
  "sid_two = ''0a0a0a0a-0000-4000-8000-000000000002''"

definition alice_auth_id :: string where
  "alice_auth_id = ''6ba7b810-9dad-11d1-80b4-00c04fd430c8''"

definition alice_challenge :: auth_sessions_row where
  "alice_challenge =
     \<lparr>as_id = 1, as_auth_id = alice_auth_id, as_user_id = 1,
      as_challenge_c = ''11'', as_commitment_r1 = ''13'', as_commitment_r2 = ''17'',
      as_created_at = 10, as_expires_at = 50, as_verified = False\<rparr>"

definition alice_store :: store where
  "alice_store =
     \<lparr>users = [alice], auth_sessions = [alice_challenge], active_sessions = [],
      users_id_seq = 1, auth_sessions_id_seq = 1, active_sessions_id_seq = 0\<rparr>"

text \<open>
  The store of alice after her challenge was verified at time 20 with a session
  of 30: the challenge and the session both expire at 50.
\<close>

definition alice_session :: active_sessions_row where
  "alice_session =
     \<lparr>ac_id = 1, ac_session_id = sid_one, ac_user_id = 1, ac_created_at = 20,
      ac_expires_at = 50, ac_last_activity = 20\<rparr>"

definition session_store :: store where
  "session_store =
     alice_store\<lparr>auth_sessions := [alice_challenge\<lparr>as_verified := True\<rparr>],
       active_sessions := [alice_session], active_sessions_id_seq := 1\<rparr>"

text \<open>A row of \<open>users\<close> whose \<^verbatim>\<open>y1\<close> is not a number.\<close>

definition mallory :: users_row where
  "mallory =
     \<lparr>users_id = 2, users_username = ''mallory'',
      users_y1 = ''not-a-number'', users_y2 = ''7'',
      users_created_at = 0, users_updated_at = 0\<rparr>"

definition mallory_store :: store where
  "mallory_store = alice_store\<lparr>users := [alice, mallory], users_id_seq := 2\<rparr>"

text \<open>A driver whose server does not answer the ping.\<close>

definition unreachable_driver :: "nat driver" where
  "unreachable_driver = \<lparr>sql_Open = (\<lambda>s. Inr 0), Ping = (\<lambda>h. Some ConnFailure)\<rparr>"

definition no_env :: "string \<Rightarrow> string" where
  "no_env key = []"

definition server_process :: "(nat, nat) process" where
  "server_process =
     \<lparr>flag_server = True, NewCPZKP = Inr 0, Getenv = no_env,
      sql_driver = unreachable_driver, RootCmd_Execute = None\<rparr>"

section \<open>Properties\<close>

subsection \<open>Printing and reading back a big integer\<close>

lemma of_char_digit_char: "d < 10 \<Longrightarrow> (of_char (digit_char d) :: nat) = 48 + d"
  by (simp add: digit_char_def)

lemma is_digit_digit_char: "d < 10 \<Longrightarrow> is_digit (digit_char d)"
  by (simp add: is_digit_def of_char_digit_char)

lemma digit_val_digit_char: "d < 10 \<Longrightarrow> digit_val (digit_char d) = d"
  by (simp add: digit_val_def of_char_digit_char)

lemma digit_char_eval:
  "digit_char 0 = CHR ''0''" "digit_char 1 = CHR ''1''" "digit_char 2 = CHR ''2''"
  "digit_char 3 = CHR ''3''" "digit_char 4 = CHR ''4''" "digit_char 5 = CHR ''5''"
  "digit_char 6 = CHR ''6''" "digit_char 7 = CHR ''7''" "digit_char 8 = CHR ''8''"
  "digit_char 9 = CHR ''9''" "digit_char (Suc 0) = CHR ''1''"
  by code_simp+

lemma utoa_digits: "list_all is_digit (utoa n)"
proof (induction n rule: utoa.induct)
  case (1 n)
  show ?case
  proof (cases "n < 10")
    case True
    then show ?thesis by (simp add: utoa.simps [of n] is_digit_digit_char)
  next
    case False
    with 1 show ?thesis by (simp add: utoa.simps [of n] is_digit_digit_char)
  qed
qed

lemma utoa_not_Nil: "utoa n \<noteq> []"
  by (simp add: utoa.simps [of n])

lemma utoa_value: "foldl (\<lambda>a c. 10 * a + digit_val c) 0 (utoa n) = n"
proof (induction n rule: utoa.induct)
  case (1 n)
  show ?case
  proof (cases "n < 10")
    case True
    then show ?thesis by (simp add: utoa.simps [of n] digit_val_digit_char)
  next
    case False
    with 1 show ?thesis by (simp add: utoa.simps [of n] digit_val_digit_char)
  qed
qed

lemma takeWhile_utoa: "takeWhile is_digit (utoa n) = utoa n"
  using utoa_digits [of n] by (simp add: list_all_iff)

lemma dropWhile_utoa: "dropWhile is_digit (utoa n) = []"
  using utoa_digits [of n] by (simp add: list_all_iff)

lemma nat_scan_utoa: "nat_scan (utoa n) = Some (n, [])"
  by (simp add: nat_scan_def takeWhile_utoa dropWhile_utoa utoa_not_Nil utoa_value)

lemma scanSign_utoa: "scanSign (utoa n) = Some (False, utoa n)"
proof -
  obtain c cs where eq: "utoa n = c # cs" using utoa_not_Nil [of n] by (cases "utoa n") auto
  have "is_digit c" using utoa_digits [of n] by (simp add: eq)
  then have "c \<noteq> CHR ''-''" "c \<noteq> CHR ''+''" by (auto simp add: is_digit_def)
  then show ?thesis by (simp add: scanSign_def eq)
qed

lemma SetString_Text10: "Int_SetString (Text10 v) = (v, True)"
proof (cases "v < 0")
  case True
  have "scanSign (CHR ''-'' # utoa (nat (- v))) = Some (True, utoa (nat (- v)))"
    by (simp add: scanSign_def)
  with True show ?thesis by (simp add: Int_SetString_def Text10_def nat_scan_utoa)
next
  case False
  then show ?thesis by (simp add: Int_SetString_def Text10_def nat_scan_utoa scanSign_utoa)
qed

lemma SetString_String: "Int_SetString (Int_String (Some v)) = (v, True)"
  by (simp add: Int_String_def SetString_Text10)

subsection \<open>Searching a table\<close>

lemma find_append_None: "find P xs = None \<Longrightarrow> find P (xs @ ys) = find P ys"
  by (induction xs) auto

lemma find_key_unique:
  "distinct (map f xs) \<Longrightarrow> x \<in> set xs \<Longrightarrow> P x \<Longrightarrow> find (\<lambda>y. f y = f x \<and> P y) xs = Some x"
  by (induction xs) auto

lemma find_key_unique0:
  "distinct (map f xs) \<Longrightarrow> x \<in> set xs \<Longrightarrow> find (\<lambda>y. f y = f x) xs = Some x"
  using find_key_unique [of f xs x "\<lambda>_. True"] by simp

lemma find_None_list_ex: "find P xs = None \<longleftrightarrow> \<not> list_ex P xs"
  by (induction xs) auto

subsection \<open>Unfolding the sample data\<close>

lemmas sample_defs = env_at_def no_faults_def empty_store_def alice_def alice_challenge_def
  alice_store_def mallory_def mallory_store_def sid_one_def sid_two_def alice_auth_id_def
  alice_session_def session_store_def

lemmas text_eval = Int_String_def Text10_def utoa.simps digit_char_eval
  Int_SetString_def scanSign_def nat_scan_def is_digit_def digit_val_def

subsection \<open>Registration and lookup\<close>

text \<open>
  Claim C7. Registering a user and then looking the username up returns the values
  registered, whatever their size: when the server is reachable, the username has at
  most 255 characters and no row of \<open>users\<close> carries it, \<open>RegisterUser\<close> succeeds and
  \<open>GetUserByUsername\<close> on the store it leaves returns a \<open>User\<close> whose \<open>Y1\<close> and \<open>Y2\<close>
  are the integers that were passed in, for all integers \<open>y1\<close> and \<open>y2\<close>.
\<close>

theorem C7_register_then_get:
  assumes "\<not> conn_fails e 0" and "\<not> conn_fails e' 0"
    and "char_length username \<le> 255"
    and "\<not> list_ex (\<lambda>u. users_username u = username) (users db)"
  shows "\<exists>db'. RegisterUser e db username (Some y1) (Some y2) = (None, db') \<and>
           (\<exists>u. GetUserByUsername e' db' username = Inr u \<and>
                 User_Username u = username \<and> Y1 u = y1 \<and> Y2 u = y2)"
proof -
  let ?row = "\<lparr>users_id = users_id_seq db + 1, users_username = username,
                users_y1 = Int_String (Some y1), users_y2 = Int_String (Some y2),
                users_created_at = now e, users_updated_at = now e\<rparr>"
  let ?db' = "db\<lparr>users_id_seq := users_id_seq db + 1, users := users db @ [?row]\<rparr>"
  have reg: "RegisterUser e db username (Some y1) (Some y2) = (None, ?db')"
    using assms by (simp add: RegisterUser_def insert_users_def)
  have "find (\<lambda>u. users_username u = username) (users db) = None"
    using assms(4) by (simp add: find_None_list_ex)
  then have "find (\<lambda>u. users_username u = username) (users ?db') = Some ?row"
    by (simp add: find_append_None)
  then have "GetUserByUsername e' ?db' username = Inr (scan_User ?row)"
    using assms(2) by (simp add: GetUserByUsername_def)
  moreover have "User_Username (scan_User ?row) = username" "Y1 (scan_User ?row) = y1"
    "Y2 (scan_User ?row) = y2"
    by (simp_all add: scan_User_def SetString_String)
  ultimately show ?thesis using reg by simp
qed

text \<open>
  The theorem at the sample of the specification: the empty store, the user alice, a
  30-digit \<open>y1\<close> and a \<open>y2\<close> of 2049 bits.
\<close>

theorem C7_register_then_get_witness:
  "\<not> conn_fails (env_at 5 []) 0 \<and> \<not> conn_fails (env_at 6 []) 0 \<and>
   char_length ''alice'' \<le> 255 \<and>
   \<not> list_ex (\<lambda>u. users_username u = ''alice'') (users empty_store) \<and>
   (\<exists>db'. RegisterUser (env_at 5 []) empty_store ''alice''
             (Some 123456789012345678901234567890) (Some (2 ^ 2048 + 1)) = (None, db') \<and>
      (\<exists>u. GetUserByUsername (env_at 6 []) db' ''alice'' = Inr u \<and>
            User_Username u = ''alice'' \<and> Y1 u = 123456789012345678901234567890 \<and>
            Y2 u = 2 ^ 2048 + 1))"
proof -
  have h1: "\<not> conn_fails (env_at 5 []) 0" by (simp add: sample_defs)
  have h2: "\<not> conn_fails (env_at 6 []) 0" by (simp add: sample_defs)
  have h3: "char_length ''alice'' \<le> 255" by (simp add: char_length_def)
  have h4: "\<not> list_ex (\<lambda>u. users_username u = ''alice'') (users empty_store)"
    by (simp add: sample_defs)
  show ?thesis
    using C7_register_then_get [OF h1 h2 h3 h4] h1 h2 h3 h4 by blast
qed

text \<open>
  Claim C3, as stated, fails. It says that stored text which is not a base-10 integer
  makes \<open>GetUserByUsername\<close> and \<open>GetUserByID\<close> fail. Both methods drop the second
  result of \<^verbatim>\<open>SetString\<close>: for the row of mallory, whose \<^verbatim>\<open>y1\<close> is no number, both return
  a \<open>User\<close>, with the zero the failed parse left in \<open>Y1\<close>, and no error.
\<close>

theorem C3_counterexample:
  "\<not> snd (Int_SetString (users_y1 mallory)) \<and>
   GetUserByUsername (env_at 100 []) mallory_store ''mallory'' =
     Inr \<lparr>User_ID = 2, User_Username = ''mallory'', Y1 = 0, Y2 = 7,
          User_CreatedAt = 0, User_UpdatedAt = 0\<rparr> \<and>
   GetUserByID (env_at 100 []) mallory_store 2 =
     Inr \<lparr>User_ID = 2, User_Username = ''mallory'', Y1 = 0, Y2 = 7,
          User_CreatedAt = 0, User_UpdatedAt = 0\<rparr>"
  by (simp add: GetUserByUsername_def GetUserByID_def scan_User_def sample_defs text_eval)

text \<open>
  Claim C3, amended. For every stored row of \<open>users\<close> (usernames and ids being
  unique, as the schema has them) and a reachable server, \<open>GetUserByUsername\<close> and
  \<open>GetUserByID\<close> return the \<open>User\<close> read from that row and no error, whatever text
  the row holds; where the text is the decimal writing of an integer, the field is
  that integer. The result of the parse is never looked at.
\<close>

theorem C3_parse_unchecked:
  assumes "\<not> conn_fails e 0"
    and "row \<in> set (users db)"
    and "distinct (map users_username (users db))"
    and "distinct (map users_id (users db))"
  shows "GetUserByUsername e db (users_username row) = Inr (scan_User row) \<and>
         GetUserByID e db (users_id row) = Inr (scan_User row) \<and>
         User_ID (scan_User row) = users_id row \<and>
         User_Username (scan_User row) = users_username row \<and>
         (users_y1 row = Int_String (Some a) \<longrightarrow> Y1 (scan_User row) = a) \<and>
         (users_y2 row = Int_String (Some b) \<longrightarrow> Y2 (scan_User row) = b)"
proof -
  have "find (\<lambda>u. users_username u = users_username row) (users db) = Some row"
    using assms(2,3) by (rule find_key_unique0 [rotated])
  then have 1: "GetUserByUsername e db (users_username row) = Inr (scan_User row)"
    using assms(1) by (simp add: GetUserByUsername_def)
  have "find (\<lambda>u. users_id u = users_id row) (users db) = Some row"
    using assms(2,4) by (rule find_key_unique0 [rotated])
  then have 2: "GetUserByID e db (users_id row) = Inr (scan_User row)"
    using assms(1) by (simp add: GetUserByID_def)
  have 3: "users_y1 row = Int_String (Some a) \<longrightarrow> Y1 (scan_User row) = a"
    by (simp add: scan_User_def SetString_String)
  have 4: "users_y2 row = Int_String (Some b) \<longrightarrow> Y2 (scan_User row) = b"
    by (simp add: scan_User_def SetString_String)
  show ?thesis using 1 2 3 4 by (simp add: scan_User_def)
qed

text \<open>The theorem at the row of alice, whose texts are decimal.\<close>

theorem C3_parse_unchecked_witness:
  "\<not> conn_fails (env_at 100 []) 0 \<and> alice \<in> set (users mallory_store) \<and>
   distinct (map users_username (users mallory_store)) \<and>
   distinct (map users_id (users mallory_store)) \<and>
   users_y1 alice = Int_String (Some 123456789012345678901234567890) \<and>
   users_y2 alice = Int_String (Some 987654321098765432109876543210) \<and>
   GetUserByUsername (env_at 100 []) mallory_store ''alice'' = Inr (scan_User alice) \<and>
   GetUserByID (env_at 100 []) mallory_store 1 = Inr (scan_User alice) \<and>
   Y1 (scan_User alice) = 123456789012345678901234567890 \<and>
   Y2 (scan_User alice) = 987654321098765432109876543210"
proof -
  have h1: "\<not> conn_fails (env_at 100 []) 0" by (simp add: sample_defs)
  have h2: "alice \<in> set (users mallory_store)" by (simp add: sample_defs)
  have h3: "distinct (map users_username (users mallory_store))" by (simp add: sample_defs)
  have h4: "distinct (map users_id (users mallory_store))" by (simp add: sample_defs)
  have h5: "users_y1 alice = Int_String (Some 123456789012345678901234567890)"
    by (simp add: sample_defs text_eval)
  have h6: "users_y2 alice = Int_String (Some 987654321098765432109876543210)"
    by (simp add: sample_defs text_eval)
  have n: "users_username alice = ''alice''" "users_id alice = 1" by (simp_all add: alice_def)
  show ?thesis
    using C3_parse_unchecked [OF h1 h2 h3 h4, of "123456789012345678901234567890"
        "987654321098765432109876543210"] h1 h2 h3 h4 h5 h6
    by (simp only: n) blast
qed

text \<open>
  Claim C6, as stated, fails. It says that registering a username that is taken fails
  with a \<^verbatim>\<open>DuplicateUser\<close> error that is no wrapped error of the store. The method
  has one error, \<^verbatim>\<open>failed to register user: %w\<close>, and it wraps what the store
  answered: here the violation of the unique constraint, by its name.
\<close>

theorem C6_counterexample:
  "RegisterUser (env_at 100 []) alice_store ''alice'' (Some 1) (Some 2) =
     (Some (FailedToRegisterUser (UniqueViolation ''users_username_key'')),
      alice_store\<lparr>users_id_seq := 2\<rparr>) \<and>
   Unwrap (FailedToRegisterUser (UniqueViolation ''users_username_key'')) =
     Some (UniqueViolation ''users_username_key'')"
  by (simp add: RegisterUser_def insert_users_def char_length_def sample_defs)

text \<open>
  Claim C6, amended. For every username a row of \<open>users\<close> carries already (and a
  reachable server), \<open>RegisterUser\<close> fails with \<^verbatim>\<open>failed to register user\<close> wrapping
  the unique-constraint violation of the store, and adds no row: the table \<open>users\<close> is
  as before, and only the sequence of ids has moved on.
\<close>

theorem C6_duplicate_username:
  assumes "\<not> conn_fails e 0"
    and "list_ex (\<lambda>u. users_username u = username) (users db)"
    and "char_length username \<le> 255"
  shows "RegisterUser e db username y1 y2 =
           (Some (FailedToRegisterUser (UniqueViolation ''users_username_key'')),
            db\<lparr>users_id_seq := users_id_seq db + 1\<rparr>) \<and>
         users (snd (RegisterUser e db username y1 y2)) = users db"
  using assms by (simp add: RegisterUser_def insert_users_def)

text \<open>The theorem at the store of alice, registering alice again.\<close>

theorem C6_duplicate_username_witness:
  "\<not> conn_fails (env_at 100 []) 0 \<and>
   list_ex (\<lambda>u. users_username u = ''alice'') (users alice_store) \<and>
   char_length ''alice'' \<le> 255 \<and>
   RegisterUser (env_at 100 []) alice_store ''alice'' (Some 3) None =
     (Some (FailedToRegisterUser (UniqueViolation ''users_username_key'')),
      alice_store\<lparr>users_id_seq := users_id_seq alice_store + 1\<rparr>) \<and>
   users (snd (RegisterUser (env_at 100 []) alice_store ''alice'' (Some 3) None)) =
     users alice_store"
proof -
  have h1: "\<not> conn_fails (env_at 100 []) 0" by (simp add: sample_defs)
  have h2: "list_ex (\<lambda>u. users_username u = ''alice'') (users alice_store)"
    by (simp add: sample_defs)
  have h3: "char_length ''alice'' \<le> 255" by (simp add: char_length_def)
  show ?thesis
    using C6_duplicate_username [OF h1 h2 h3, of "Some 3" None] h1 h2 h3 by blast
qed

subsection \<open>Creating a challenge\<close>



subsection \<open>Starting without a store\<close>

text \<open>
  Claim C8. When \<open>NewDatabase\<close> returns an error at the start of the server (the flag
  \<^verbatim>\<open>--server\<close> set, the parameters of the proof system generated), \<open>main\<close> neither
  stops nor fails: it goes on to run the gRPC server, on a configuration whose store
  handle is nil. Nothing is tried on the store before a request asks for it.
\<close>

theorem C8_start_without_store:
  assumes "flag_server w" and "NewCPZKP w = Inr cpzkpParams"
    and "NewDatabase (sql_driver w) (dbCfg (Getenv w)) = Inl err"
  shows "main w = RunServer \<lparr>CPZKP = cpzkpParams, DB = None\<rparr>"
  using assms by (simp add: main_def)

text \<open>The theorem at a process whose database server does not answer the ping.\<close>

theorem C8_start_without_store_witness:
  "flag_server server_process \<and> NewCPZKP server_process = Inr 0 \<and>
   NewDatabase (sql_driver server_process) (dbCfg (Getenv server_process)) =
     Inl (FailedToPingDatabase ConnFailure) \<and>
   main server_process = RunServer \<lparr>CPZKP = 0, DB = None\<rparr>"
proof -
  have h1: "flag_server server_process" by (simp add: server_process_def)
  have h2: "NewCPZKP server_process = Inr 0" by (simp add: server_process_def)
  have h3: "NewDatabase (sql_driver server_process) (dbCfg (Getenv server_process)) =
     Inl (FailedToPingDatabase ConnFailure)"
    by (simp add: server_process_def NewDatabase_def unreachable_driver_def)
  show ?thesis using C8_start_without_store [OF h1 h2 h3] h1 h2 h3 by simp
qed

subsection \<open>Identifiers of the sample\<close>

lemma hyphen_after_eval:
  "hyphen_after = [False, True, False, True, False, True, False, True,
                   False, True, False, True, False, True, False, False]"
  by code_simp

lemmas uuid_eval = uuid_in_def uuid_out_def hyphen_after_eval is_xdigit_def hex_lower_def Let_def

lemma uuid_in_samples:
  "uuid_in sid_one = Some sid_one" "uuid_in sid_two = Some sid_two"
  "uuid_in alice_auth_id = Some alice_auth_id"
  by (simp_all add: uuid_eval sid_one_def sid_two_def alice_auth_id_def)

subsection \<open>Completing a verification\<close>

text \<open>
  The UPDATE of \<open>CreateActiveSession\<close> selects the row by \<^verbatim>\<open>auth_id\<close> alone. When the
  text is a UUID, the row is there, its user is there and the new session identifier
  is unused, the call on a reachable server succeeds: every row of that \<^verbatim>\<open>auth_id\<close>
  is marked verified and one row is appended to \<open>active_sessions\<close>.
\<close>

lemma distinct_key_eq:
  "distinct (map f xs) \<Longrightarrow> x \<in> set xs \<Longrightarrow> y \<in> set xs \<Longrightarrow> f x = f y \<Longrightarrow> x = y"
  by (induction xs) (auto simp add: image_iff)

lemma reachable_env_at: "reachable (env_at t u)"
  by (simp add: reachable_def env_at_def no_faults_def)

lemma map_auth_id_mark:
  "map as_auth_id (map (\<lambda>r. if as_auth_id r = a then r\<lparr>as_verified := True\<rparr> else r) rows) =
   map as_auth_id rows"
  by (induction rows) auto

lemma map_mark_twice:
  "map (\<lambda>r. if as_auth_id r = a then r\<lparr>as_verified := True\<rparr> else r)
     (map (\<lambda>r. if as_auth_id r = a then r\<lparr>as_verified := True\<rparr> else r) rows) =
   map (\<lambda>r. if as_auth_id r = a then r\<lparr>as_verified := True\<rparr> else r) rows"
  by (induction rows) auto

lemma CreateActiveSession_succeeds:
  assumes "reachable e"
    and "uuid_in authID = Some a"
    and "r \<in> set (auth_sessions db)" and "as_auth_id r = a"
    and "distinct (map as_auth_id (auth_sessions db))"
    and "list_ex (\<lambda>u. users_id u = as_user_id r) (users db)"
    and "uuid_in (uuid_New e) = Some s"
    and "\<not> list_ex (\<lambda>x. ac_session_id x = s) (active_sessions db)"
  shows "CreateActiveSession e db authID ttl =
           (Inr (uuid_New e),
            db\<lparr>auth_sessions :=
                  map (\<lambda>r. if as_auth_id r = a then r\<lparr>as_verified := True\<rparr> else r)
                    (auth_sessions db),
               active_sessions_id_seq := active_sessions_id_seq db + 1,
               active_sessions := active_sessions db @
                 [\<lparr>ac_id = active_sessions_id_seq db + 1, ac_session_id = s,
                   ac_user_id = as_user_id r, ac_created_at = now e,
                   ac_expires_at = now e + ttl, ac_last_activity = now e\<rparr>]\<rparr>)"
proof -
  have "find (\<lambda>x. as_auth_id x = as_auth_id r) (auth_sessions db) = Some r"
    using assms(5,3) by (rule find_key_unique0)
  then have "find (\<lambda>x. as_auth_id x = a) (auth_sessions db) = Some r"
    using assms(4) by simp
  then show ?thesis
    using assms(1,2,6,7,8)
    by (simp add: CreateActiveSession_def update_verified_def insert_active_sessions_def
        reachable_def Let_def)
qed

text \<open>
  When no row of \<open>auth_sessions\<close> has the \<^verbatim>\<open>auth_id\<close>, or the text is no UUID, the call
  fails and the store is as before, whichever round trips fail; on a reachable
  server the error wraps \<^verbatim>\<open>sql.ErrNoRows\<close> in the first case and the syntax error of
  the server in the second.
\<close>

lemma CreateActiveSession_unknown_authID:
  assumes "uuid_in authID = Some a"
    and "\<not> list_ex (\<lambda>r. as_auth_id r = a) (auth_sessions db)"
  shows "(\<exists>err. CreateActiveSession e db authID ttl = (Inl err, db)) \<and>
         (\<not> conn_fails e 0 \<and> \<not> conn_fails e 1 \<longrightarrow>
            CreateActiveSession e db authID ttl = (Inl (FailedToVerifyAuthSession ErrNoRows), db))"
proof -
  have "find (\<lambda>r. as_auth_id r = a) (auth_sessions db) = None"
    using assms(2) by (simp add: find_None_list_ex)
  then show ?thesis using assms(1) by (simp add: CreateActiveSession_def update_verified_def)
qed

lemma CreateActiveSession_malformed_authID:
  assumes "uuid_in authID = None"
  shows "(\<exists>err. CreateActiveSession e db authID ttl = (Inl err, db)) \<and>
         (\<not> conn_fails e 0 \<and> \<not> conn_fails e 1 \<longrightarrow>
            CreateActiveSession e db authID ttl =
              (Inl (FailedToVerifyAuthSession InvalidTextRepresentation), db))"
  using assms by (simp add: CreateActiveSession_def update_verified_def)

text \<open>
  Claim C1, as stated, fails. It says that a second \<open>CreateActiveSession\<close> on the same
  \<^verbatim>\<open>authId\<close> never produces a second row of \<open>active_sessions\<close>. On the store of alice,
  at times 20 and 21 when her challenge (expiring at 50) is live, the first call
  marks the challenge verified and inserts a session; the second call, on the store
  the first one left, succeeds too and inserts a second session for her.
\<close>

theorem C1_counterexample:
  "CreateActiveSession (env_at 20 sid_one) alice_store alice_auth_id 3600 =
     (Inr sid_one,
      alice_store\<lparr>auth_sessions := [alice_challenge\<lparr>as_verified := True\<rparr>],
        active_sessions_id_seq := 1,
        active_sessions :=
          [\<lparr>ac_id = 1, ac_session_id = sid_one, ac_user_id = 1, ac_created_at = 20,
            ac_expires_at = 3620, ac_last_activity = 20\<rparr>]\<rparr>) \<and>
   CreateActiveSession (env_at 21 sid_two)
       (snd (CreateActiveSession (env_at 20 sid_one) alice_store alice_auth_id 3600))
       alice_auth_id 3600 =
     (Inr sid_two,
      alice_store\<lparr>auth_sessions := [alice_challenge\<lparr>as_verified := True\<rparr>],
        active_sessions_id_seq := 2,
        active_sessions :=
          [\<lparr>ac_id = 1, ac_session_id = sid_one, ac_user_id = 1, ac_created_at = 20,
            ac_expires_at = 3620, ac_last_activity = 20\<rparr>,
           \<lparr>ac_id = 2, ac_session_id = sid_two, ac_user_id = 1, ac_created_at = 21,
            ac_expires_at = 3621, ac_last_activity = 21\<rparr>]\<rparr>)"
  by (simp add: CreateActiveSession_def update_verified_def insert_active_sessions_def
      uuid_eval sample_defs)

text \<open>
  Claim C1, amended. \<open>CreateActiveSession\<close> sets the flag \<^verbatim>\<open>verified\<close> and never reads
  it. For every \<^verbatim>\<open>authId\<close> whose row exists and has not expired at either call (the
  \<^verbatim>\<open>auth_id\<close>s unique, the owning user present), a reachable server and two distinct
  unused session identifiers: the first call succeeds, sets \<^verbatim>\<open>verified\<close> on the row
  and appends exactly one row to \<open>active_sessions\<close>; the second call on the resulting
  store succeeds again, leaves \<open>auth_sessions\<close> as the first call left it (the row
  stays verified), and appends exactly one further row, a second session of the
  same user. Nothing is said here of a row that has expired.
\<close>

theorem C1_repeat_creates_again:
  assumes "reachable e1" and "reachable e2"
    and "uuid_in authID = Some a"
    and "r \<in> set (auth_sessions db)" and "as_auth_id r = a"
    and "distinct (map as_auth_id (auth_sessions db))"
    and "list_ex (\<lambda>u. users_id u = as_user_id r) (users db)"
    and "now e1 < as_expires_at r" and "now e2 < as_expires_at r"
    and "uuid_in (uuid_New e1) = Some s1" and "uuid_in (uuid_New e2) = Some s2"
    and "\<not> list_ex (\<lambda>x. ac_session_id x = s1) (active_sessions db)"
    and "\<not> list_ex (\<lambda>x. ac_session_id x = s2) (active_sessions db)"
    and "s1 \<noteq> s2"
  shows "\<exists>db1 db2.
           CreateActiveSession e1 db authID ttl1 = (Inr (uuid_New e1), db1) \<and>
           auth_sessions db1 =
             map (\<lambda>x. if as_auth_id x = a then x\<lparr>as_verified := True\<rparr> else x) (auth_sessions db) \<and>
           r\<lparr>as_verified := True\<rparr> \<in> set (auth_sessions db1) \<and>
           active_sessions db1 = active_sessions db @
             [\<lparr>ac_id = active_sessions_id_seq db + 1, ac_session_id = s1,
               ac_user_id = as_user_id r, ac_created_at = now e1,
               ac_expires_at = now e1 + ttl1, ac_last_activity = now e1\<rparr>] \<and>
           users db1 = users db \<and>
           CreateActiveSession e2 db1 authID ttl2 = (Inr (uuid_New e2), db2) \<and>
           auth_sessions db2 = auth_sessions db1 \<and>
           active_sessions db2 = active_sessions db1 @
             [\<lparr>ac_id = active_sessions_id_seq db + 2, ac_session_id = s2,
               ac_user_id = as_user_id r, ac_created_at = now e2,
               ac_expires_at = now e2 + ttl2, ac_last_activity = now e2\<rparr>] \<and>
           users db2 = users db"
proof -
  let ?mark = "\<lambda>x. if as_auth_id x = a then x\<lparr>as_verified := True\<rparr> else x"
  let ?r' = "r\<lparr>as_verified := True\<rparr>"
  let ?row1 = "\<lparr>ac_id = active_sessions_id_seq db + 1, ac_session_id = s1,
              ac_user_id = as_user_id r, ac_created_at = now e1,
              ac_expires_at = now e1 + ttl1, ac_last_activity = now e1\<rparr>"
  let ?db1 = "db\<lparr>auth_sessions := map ?mark (auth_sessions db),
                 active_sessions_id_seq := active_sessions_id_seq db + 1,
                 active_sessions := active_sessions db @ [?row1]\<rparr>"
  have first: "CreateActiveSession e1 db authID ttl1 = (Inr (uuid_New e1), ?db1)"
    using assms(1,3,4,5,6,7,10,12) by (rule CreateActiveSession_succeeds)
  have "?mark r \<in> set (map ?mark (auth_sessions db))"
    using assms(4) by (simp only: set_map) (rule imageI)
  then have in1: "?r' \<in> set (auth_sessions ?db1)"
    using assms(5) by simp
  have id1: "as_auth_id ?r' = a" using assms(5) by simp
  have d1: "distinct (map as_auth_id (auth_sessions ?db1))"
    using assms(6) by (simp add: map_auth_id_mark del: map_map)
  have u1: "list_ex (\<lambda>u. users_id u = as_user_id ?r') (users ?db1)"
    using assms(7) by simp
  have f1: "\<not> list_ex (\<lambda>x. ac_session_id x = s2) (active_sessions ?db1)"
    using assms(13,14) by simp
  let ?row2 = "\<lparr>ac_id = active_sessions_id_seq ?db1 + 1, ac_session_id = s2,
              ac_user_id = as_user_id ?r', ac_created_at = now e2,
              ac_expires_at = now e2 + ttl2, ac_last_activity = now e2\<rparr>"
  let ?db2 = "?db1\<lparr>auth_sessions := map ?mark (auth_sessions ?db1),
                 active_sessions_id_seq := active_sessions_id_seq ?db1 + 1,
                 active_sessions := active_sessions ?db1 @ [?row2]\<rparr>"
  have second: "CreateActiveSession e2 ?db1 authID ttl2 = (Inr (uuid_New e2), ?db2)"
    using assms(2,3) in1 id1 d1 u1 assms(11) f1 by (rule CreateActiveSession_succeeds)
  have a1: "auth_sessions ?db1 = map ?mark (auth_sessions db)" by simp
  have s1: "active_sessions ?db1 = active_sessions db @ [?row1]" by simp
  have a2: "auth_sessions ?db2 = auth_sessions ?db1"
    by (simp add: map_mark_twice del: map_map)
  have s2: "active_sessions ?db2 = active_sessions ?db1 @
             [\<lparr>ac_id = active_sessions_id_seq db + 2, ac_session_id = s2,
               ac_user_id = as_user_id r, ac_created_at = now e2,
               ac_expires_at = now e2 + ttl2, ac_last_activity = now e2\<rparr>]"
    by simp
  have k1: "users ?db1 = users db" and k2: "users ?db2 = users db" by simp_all
  show ?thesis using first a1 in1 s1 k1 second a2 s2 k2 by blast
qed

text \<open>The theorem at the store of alice and her challenge, at times 20 and 21.\<close>

theorem C1_repeat_creates_again_witness:
  "reachable (env_at 20 sid_one) \<and> reachable (env_at 21 sid_two) \<and>
   uuid_in alice_auth_id = Some alice_auth_id \<and>
   alice_challenge \<in> set (auth_sessions alice_store) \<and>
   as_auth_id alice_challenge = alice_auth_id \<and>
   distinct (map as_auth_id (auth_sessions alice_store)) \<and>
   list_ex (\<lambda>u. users_id u = as_user_id alice_challenge) (users alice_store) \<and>
   now (env_at 20 sid_one) < as_expires_at alice_challenge \<and>
   now (env_at 21 sid_two) < as_expires_at alice_challenge \<and>
   uuid_in (uuid_New (env_at 20 sid_one)) = Some sid_one \<and>
   uuid_in (uuid_New (env_at 21 sid_two)) = Some sid_two \<and>
   \<not> list_ex (\<lambda>x. ac_session_id x = sid_one) (active_sessions alice_store) \<and>
   \<not> list_ex (\<lambda>x. ac_session_id x = sid_two) (active_sessions alice_store) \<and>
   sid_one \<noteq> sid_two \<and>
   (\<exists>db1 db2.
      CreateActiveSession (env_at 20 sid_one) alice_store alice_auth_id 3600 =
        (Inr (uuid_New (env_at 20 sid_one)), db1) \<and>
      auth_sessions db1 =
        map (\<lambda>x. if as_auth_id x = alice_auth_id then x\<lparr>as_verified := True\<rparr> else x)
          (auth_sessions alice_store) \<and>
      alice_challenge\<lparr>as_verified := True\<rparr> \<in> set (auth_sessions db1) \<and>
      active_sessions db1 = active_sessions alice_store @
        [\<lparr>ac_id = active_sessions_id_seq alice_store + 1, ac_session_id = sid_one,
          ac_user_id = as_user_id alice_challenge, ac_created_at = now (env_at 20 sid_one),
          ac_expires_at = now (env_at 20 sid_one) + 3600,
          ac_last_activity = now (env_at 20 sid_one)\<rparr>] \<and>
      users db1 = users alice_store \<and>
      CreateActiveSession (env_at 21 sid_two) db1 alice_auth_id 3600 =
        (Inr (uuid_New (env_at 21 sid_two)), db2) \<and>
      auth_sessions db2 = auth_sessions db1 \<and>
      active_sessions db2 = active_sessions db1 @
        [\<lparr>ac_id = active_sessions_id_seq alice_store + 2, ac_session_id = sid_two,
          ac_user_id = as_user_id alice_challenge, ac_created_at = now (env_at 21 sid_two),
          ac_expires_at = now (env_at 21 sid_two) + 3600,
          ac_last_activity = now (env_at 21 sid_two)\<rparr>] \<and>
      users db2 = users alice_store)"
proof -
  have h1: "reachable (env_at 20 sid_one)" and h2: "reachable (env_at 21 sid_two)"
    by (rule reachable_env_at)+
  have h3: "uuid_in alice_auth_id = Some alice_auth_id" by (rule uuid_in_samples)
  have h4: "alice_challenge \<in> set (auth_sessions alice_store)" by (simp add: alice_store_def)
  have h5: "as_auth_id alice_challenge = alice_auth_id" by (simp add: alice_challenge_def)
  have h6: "distinct (map as_auth_id (auth_sessions alice_store))" by (simp add: alice_store_def)
  have h7: "list_ex (\<lambda>u. users_id u = as_user_id alice_challenge) (users alice_store)"
    by (simp add: sample_defs)
  have h8: "now (env_at 20 sid_one) < as_expires_at alice_challenge"
    and h9: "now (env_at 21 sid_two) < as_expires_at alice_challenge"
    by (simp_all add: env_at_def alice_challenge_def)
  have h10: "uuid_in (uuid_New (env_at 20 sid_one)) = Some sid_one"
    and h11: "uuid_in (uuid_New (env_at 21 sid_two)) = Some sid_two"
    by (simp_all add: env_at_def uuid_in_samples)
  have h12: "\<not> list_ex (\<lambda>x. ac_session_id x = sid_one) (active_sessions alice_store)"
    and h13: "\<not> list_ex (\<lambda>x. ac_session_id x = sid_two) (active_sessions alice_store)"
    by (simp_all add: alice_store_def)
  have h14: "sid_one \<noteq> sid_two" by (simp add: sid_one_def sid_two_def)
  show ?thesis
    using C1_repeat_creates_again [OF h1 h2 h3 h4 h5 h6 h7 h8 h9 h10 h11 h12 h13 h14, of 3600 3600]
      h1 h2 h3 h4 h5 h6 h7 h8 h9 h10 h11 h12 h13 h14
    by blast
qed

text \<open>
  Claim C2, at an expired challenge. The challenge of alice expired at time 50. At
  time 100 \<open>GetAuthSession\<close> reports it as not found or expired, while
  \<open>CreateActiveSession\<close> on the same store and \<^verbatim>\<open>authId\<close> succeeds: it marks the row
  verified and inserts a session. The claim asks for a failure that changes nothing.
\<close>

theorem C2_expired_challenge_accepted:
  "as_expires_at alice_challenge < now (env_at 100 sid_one) \<and>
   GetAuthSession (env_at 100 sid_one) alice_store alice_auth_id = Inl AuthSessionNotFoundOrExpired \<and>
   CreateActiveSession (env_at 100 sid_one) alice_store alice_auth_id 3600 =
     (Inr sid_one,
      alice_store\<lparr>auth_sessions := [alice_challenge\<lparr>as_verified := True\<rparr>],
        active_sessions_id_seq := 1,
        active_sessions :=
          [\<lparr>ac_id = 1, ac_session_id = sid_one, ac_user_id = 1, ac_created_at = 100,
            ac_expires_at = 3700, ac_last_activity = 100\<rparr>]\<rparr>)"
  by (simp add: CreateActiveSession_def GetAuthSession_def update_verified_def
      insert_active_sessions_def uuid_eval sample_defs)

subsection \<open>Reading a challenge\<close>

lemma find_expired_None:
  assumes "distinct (map f xs)" and "r \<in> set xs" and "\<not> P r"
  shows "find (\<lambda>x. f x = f r \<and> P x) xs = None"
proof -
  have "\<not> (\<exists>x. x \<in> set xs \<and> f x = f r \<and> P x)"
    using assms distinct_key_eq [of f xs _ r] by blast
  then show ?thesis by (simp add: find_None_iff)
qed

text \<open>What a successful \<open>CreateAuthSession\<close> has done.\<close>

lemma CreateAuthSession_Inr:
  assumes "CreateAuthSession e db username c r1 r2 ttl = (Inr authID, db')"
  shows "authID = uuid_New e \<and>
         (\<exists>a row. uuid_in authID = Some a \<and>
            \<not> list_ex (\<lambda>r. as_auth_id r = a) (auth_sessions db) \<and>
            auth_sessions db' = auth_sessions db @ [row] \<and> as_auth_id row = a \<and>
            as_expires_at row = now e + ttl \<and> \<not> as_verified row)"
  using assms
  by (auto simp add: CreateAuthSession_def insert_auth_sessions_def Let_def
      split: if_splits option.splits)

text \<open>
  Claim C4, as stated, fails. It says that \<open>GetAuthSession\<close> returns the same not-found
  error for every \<^verbatim>\<open>authId\<close> that never existed as for one that has expired. The
  column is of type UUID: for the text \<^verbatim>\<open>garbage\<close>, which no row has, the query itself
  fails and the method returns \<^verbatim>\<open>failed to get auth session\<close> wrapping the syntax
  error of the server, which is not the error it returns for the expired challenge
  of alice.
\<close>

theorem C4_counterexample:
  "\<not> list_ex (\<lambda>r. as_auth_id r = ''garbage'') (auth_sessions alice_store) \<and>
   GetAuthSession (env_at 100 sid_one) alice_store ''garbage'' =
     Inl (FailedToGetAuthSession InvalidTextRepresentation) \<and>
   GetAuthSession (env_at 100 sid_one) alice_store alice_auth_id =
     Inl AuthSessionNotFoundOrExpired \<and>
   FailedToGetAuthSession InvalidTextRepresentation \<noteq> AuthSessionNotFoundOrExpired"
  by (simp add: GetAuthSession_def uuid_eval sample_defs)

text \<open>
  Claim C4, amended. For every \<^verbatim>\<open>authId\<close> that is the text of a UUID, on a reachable
  server \<open>GetAuthSession\<close> returns one and the same error,
  \<^verbatim>\<open>auth session not found or expired\<close>, when no row has the identifier and when the
  row of the identifier has an \<^verbatim>\<open>expires_at\<close> that is not after the clock. In
  particular a challenge that \<open>CreateAuthSession\<close> has just created with a \<^verbatim>\<open>ttl\<close> of
  zero or less cannot be read at that time or any later one, though its row is in
  the table.
\<close>

theorem C4_expired_is_not_found:
  assumes "\<not> conn_fails e 0"
  shows "(uuid_in authID = Some a \<and>
          \<not> list_ex (\<lambda>r. as_auth_id r = a) (auth_sessions db) \<longrightarrow>
            GetAuthSession e db authID = Inl AuthSessionNotFoundOrExpired) \<and>
         (uuid_in authID = Some a \<and>
          r \<in> set (auth_sessions db) \<and> as_auth_id r = a \<and> as_expires_at r \<le> now e \<and>
          distinct (map as_auth_id (auth_sessions db)) \<longrightarrow>
            GetAuthSession e db authID = Inl AuthSessionNotFoundOrExpired) \<and>
         (CreateAuthSession e0 db username c r1 r2 ttl = (Inr authID, db') \<and> ttl \<le> 0 \<and>
          now e0 \<le> now e \<longrightarrow>
            GetAuthSession e db' authID = Inl AuthSessionNotFoundOrExpired)"
proof (intro conjI impI)
  assume h: "uuid_in authID = Some a \<and> \<not> list_ex (\<lambda>r. as_auth_id r = a) (auth_sessions db)"
  then have "find (\<lambda>r. as_auth_id r = a \<and> now e < as_expires_at r) (auth_sessions db) = None"
    by (auto simp add: find_None_iff list_ex_iff)
  then show "GetAuthSession e db authID = Inl AuthSessionNotFoundOrExpired"
    using assms h by (simp add: GetAuthSession_def)
next
  assume h: "uuid_in authID = Some a \<and>
          r \<in> set (auth_sessions db) \<and> as_auth_id r = a \<and> as_expires_at r \<le> now e \<and>
          distinct (map as_auth_id (auth_sessions db))"
  then have "find (\<lambda>x. as_auth_id x = as_auth_id r \<and> now e < as_expires_at x) (auth_sessions db) = None"
    by (intro find_expired_None) auto
  then show "GetAuthSession e db authID = Inl AuthSessionNotFoundOrExpired"
    using assms h by (simp add: GetAuthSession_def)
next
  assume h: "CreateAuthSession e0 db username c r1 r2 ttl = (Inr authID, db') \<and> ttl \<le> 0 \<and>
          now e0 \<le> now e"
  then obtain b row where ok: "uuid_in authID = Some b"
    and fresh: "\<not> list_ex (\<lambda>r. as_auth_id r = b) (auth_sessions db)"
    and rows: "auth_sessions db' = auth_sessions db @ [row]"
    and exp: "as_expires_at row = now e0 + ttl"
    using CreateAuthSession_Inr [of e0 db username c r1 r2 ttl authID db'] by blast
  have "find (\<lambda>r. as_auth_id r = b \<and> now e < as_expires_at r) (auth_sessions db) = None"
    using fresh by (auto simp add: find_None_iff list_ex_iff)
  then have "find (\<lambda>r. as_auth_id r = b \<and> now e < as_expires_at r) (auth_sessions db') = None"
    using h exp by (simp add: rows find_append_None)
  then show "GetAuthSession e db' authID = Inl AuthSessionNotFoundOrExpired"
    using assms ok by (simp add: GetAuthSession_def)
qed

text \<open>
  The theorem at the store of alice at time 100: an identifier no row has, her
  challenge that expired at 50, and a challenge created at 100 with \<^verbatim>\<open>ttl = 0\<close>.
\<close>

theorem C4_expired_is_not_found_witness:
  "\<not> conn_fails (env_at 100 sid_one) 0 \<and>
   uuid_in sid_two = Some sid_two \<and>
   \<not> list_ex (\<lambda>r. as_auth_id r = sid_two) (auth_sessions alice_store) \<and>
   GetAuthSession (env_at 100 sid_one) alice_store sid_two = Inl AuthSessionNotFoundOrExpired \<and>
   uuid_in alice_auth_id = Some alice_auth_id \<and>
   alice_challenge \<in> set (auth_sessions alice_store) \<and>
   as_auth_id alice_challenge = alice_auth_id \<and>
   as_expires_at alice_challenge \<le> now (env_at 100 sid_one) \<and>
   distinct (map as_auth_id (auth_sessions alice_store)) \<and>
   GetAuthSession (env_at 100 sid_one) alice_store alice_auth_id = Inl AuthSessionNotFoundOrExpired \<and>
   CreateAuthSession (env_at 100 sid_two) alice_store ''alice'' (Some 11) (Some 13) (Some 17) 0 =
     (Inr sid_two,
      alice_store\<lparr>auth_sessions_id_seq := 2,
        auth_sessions := [alice_challenge,
          \<lparr>as_id = 2, as_auth_id = sid_two, as_user_id = 1, as_challenge_c = ''11'',
            as_commitment_r1 = ''13'', as_commitment_r2 = ''17'', as_created_at = 100,
            as_expires_at = 100, as_verified = False\<rparr>]\<rparr>) \<and>
   (0::int) \<le> 0 \<and> now (env_at 100 sid_two) \<le> now (env_at 100 sid_one) \<and>
   GetAuthSession (env_at 100 sid_one)
     (alice_store\<lparr>auth_sessions_id_seq := 2,
        auth_sessions := [alice_challenge,
          \<lparr>as_id = 2, as_auth_id = sid_two, as_user_id = 1, as_challenge_c = ''11'',
            as_commitment_r1 = ''13'', as_commitment_r2 = ''17'', as_created_at = 100,
            as_expires_at = 100, as_verified = False\<rparr>]\<rparr>) sid_two =
     Inl AuthSessionNotFoundOrExpired"
proof -
  let ?db' = "alice_store\<lparr>auth_sessions_id_seq := 2,
        auth_sessions := [alice_challenge,
          \<lparr>as_id = 2, as_auth_id = sid_two, as_user_id = 1, as_challenge_c = ''11'',
            as_commitment_r1 = ''13'', as_commitment_r2 = ''17'', as_created_at = 100,
            as_expires_at = 100, as_verified = False\<rparr>]\<rparr>"
  have h0: "\<not> conn_fails (env_at 100 sid_one) 0" by (simp add: sample_defs)
  have h1: "uuid_in sid_two = Some sid_two \<and>
     \<not> list_ex (\<lambda>r. as_auth_id r = sid_two) (auth_sessions alice_store)"
    by (simp add: uuid_in_samples) (simp add: sample_defs)
  have h2: "uuid_in alice_auth_id = Some alice_auth_id \<and>
     alice_challenge \<in> set (auth_sessions alice_store) \<and>
     as_auth_id alice_challenge = alice_auth_id \<and>
     as_expires_at alice_challenge \<le> now (env_at 100 sid_one) \<and>
     distinct (map as_auth_id (auth_sessions alice_store))"
    by (simp add: uuid_in_samples) (simp add: alice_store_def alice_challenge_def env_at_def)
  have h3: "CreateAuthSession (env_at 100 sid_two) alice_store ''alice'' (Some 11) (Some 13) (Some 17) 0 =
     (Inr sid_two, ?db') \<and> (0::int) \<le> 0 \<and> now (env_at 100 sid_two) \<le> now (env_at 100 sid_one)"
    by (simp add: CreateAuthSession_def insert_auth_sessions_def uuid_eval sample_defs text_eval)
  note inst = C4_expired_is_not_found [OF h0]
  have c1: "GetAuthSession (env_at 100 sid_one) alice_store sid_two = Inl AuthSessionNotFoundOrExpired"
    using inst [of sid_two sid_two alice_store] h1 by blast
  have c2: "GetAuthSession (env_at 100 sid_one) alice_store alice_auth_id = Inl AuthSessionNotFoundOrExpired"
    using inst [of alice_auth_id alice_auth_id alice_store alice_challenge] h2 by blast
  have c3: "GetAuthSession (env_at 100 sid_one) ?db' sid_two = Inl AuthSessionNotFoundOrExpired"
    using inst [of sid_two _ alice_store _ "env_at 100 sid_two" "''alice''" "Some 11" "Some 13" "Some 17" 0 ?db'] h3
    by blast
  show ?thesis using h0 h1 h2 h3 c1 c2 c3 by blast
qed

text \<open>
  Claim C9. \<open>GetAuthSession\<close> does not filter on \<^verbatim>\<open>verified\<close>. For every \<^verbatim>\<open>authId\<close> whose
  row exists with \<^verbatim>\<open>expires_at\<close> after the clock (the \<^verbatim>\<open>auth_id\<close>s unique, the server
  reachable) the call returns the record of that row, whatever its flag: the id,
  the identifier, the user id and the two timestamps of the row, an empty
  \<open>Username\<close>, the three integers read from the texts of the row (for a text that is
  the decimal writing of an integer, that integer), and in \<open>Verified\<close> the flag of the
  row. So a challenge that was consumed and has not expired is returned with
  \<open>Verified = True\<close>, not reported as not found.
\<close>

theorem C9_verified_still_readable:
  assumes "\<not> conn_fails e 0"
    and "uuid_in authID = Some a"
    and "r \<in> set (auth_sessions db)" and "as_auth_id r = a"
    and "now e < as_expires_at r"
    and "distinct (map as_auth_id (auth_sessions db))"
  shows "GetAuthSession e db authID =
           Inr \<lparr>AuthSession_ID = as_id r, AuthSession_Username = [], AuthID = a,
                AuthSession_UserID = as_user_id r,
                ChallengeC = fst (Int_SetString (as_challenge_c r)),
                CommitmentR1 = fst (Int_SetString (as_commitment_r1 r)),
                CommitmentR2 = fst (Int_SetString (as_commitment_r2 r)),
                AuthSession_CreatedAt = as_created_at r,
                AuthSession_ExpiresAt = as_expires_at r,
                Verified = as_verified r\<rparr> \<and>
         (as_challenge_c r = Int_String (Some c) \<longrightarrow> fst (Int_SetString (as_challenge_c r)) = c) \<and>
         (as_commitment_r1 r = Int_String (Some r1) \<longrightarrow>
            fst (Int_SetString (as_commitment_r1 r)) = r1) \<and>
         (as_commitment_r2 r = Int_String (Some r2) \<longrightarrow>
            fst (Int_SetString (as_commitment_r2 r)) = r2)"
proof -
  have "find (\<lambda>x. as_auth_id x = as_auth_id r \<and> now e < as_expires_at x) (auth_sessions db) = Some r"
    using assms(6,3,5) by (rule find_key_unique)
  then have "GetAuthSession e db authID = Inr (scan_AuthSession r)"
    using assms(1,2,4) by (simp add: GetAuthSession_def)
  then show ?thesis using assms(4) by (simp add: scan_AuthSession_def SetString_String)
qed

text \<open>
  The theorem at time 30 on the store \<open>CreateActiveSession\<close> left at time 20: the
  challenge of alice, verified, expiring at 50, asked for by another spelling of
  its identifier.
\<close>

theorem C9_verified_still_readable_witness:
  "\<not> conn_fails (env_at 30 sid_two) 0 \<and>
   uuid_in ''{6BA7B810-9DAD-11D1-80B4-00C04FD430C8}'' = Some alice_auth_id \<and>
   alice_challenge\<lparr>as_verified := True\<rparr> \<in> set (auth_sessions session_store) \<and>
   as_auth_id (alice_challenge\<lparr>as_verified := True\<rparr>) = alice_auth_id \<and>
   now (env_at 30 sid_two) < as_expires_at (alice_challenge\<lparr>as_verified := True\<rparr>) \<and>
   distinct (map as_auth_id (auth_sessions session_store)) \<and>
   as_challenge_c (alice_challenge\<lparr>as_verified := True\<rparr>) = Int_String (Some 11) \<and>
   as_commitment_r1 (alice_challenge\<lparr>as_verified := True\<rparr>) = Int_String (Some 13) \<and>
   as_commitment_r2 (alice_challenge\<lparr>as_verified := True\<rparr>) = Int_String (Some 17) \<and>
   session_store = snd (CreateActiveSession (env_at 20 sid_one) alice_store alice_auth_id 30) \<and>
   GetAuthSession (env_at 30 sid_two) session_store ''{6BA7B810-9DAD-11D1-80B4-00C04FD430C8}'' =
     Inr \<lparr>AuthSession_ID = 1, AuthSession_Username = [], AuthID = alice_auth_id,
          AuthSession_UserID = 1, ChallengeC = 11, CommitmentR1 = 13, CommitmentR2 = 17,
          AuthSession_CreatedAt = 10, AuthSession_ExpiresAt = 50, Verified = True\<rparr>"
proof -
  let ?r = "alice_challenge\<lparr>as_verified := True\<rparr>"
  have h1: "\<not> conn_fails (env_at 30 sid_two) 0" by (simp add: sample_defs)
  have h2: "uuid_in ''{6BA7B810-9DAD-11D1-80B4-00C04FD430C8}'' = Some alice_auth_id"
    by (simp add: uuid_eval alice_auth_id_def)
  have h3: "?r \<in> set (auth_sessions session_store)" by (simp add: session_store_def)
  have h4: "as_auth_id ?r = alice_auth_id" by (simp add: alice_challenge_def)
  have h5: "now (env_at 30 sid_two) < as_expires_at ?r" by (simp add: alice_challenge_def env_at_def)
  have h6: "distinct (map as_auth_id (auth_sessions session_store))" by (simp add: session_store_def)
  have t: "as_challenge_c ?r = Int_String (Some 11)" "as_commitment_r1 ?r = Int_String (Some 13)"
    "as_commitment_r2 ?r = Int_String (Some 17)"
    by (simp_all add: alice_challenge_def text_eval)
  have g: "session_store = snd (CreateActiveSession (env_at 20 sid_one) alice_store alice_auth_id 30)"
    by (simp add: CreateActiveSession_def update_verified_def insert_active_sessions_def
        uuid_eval sample_defs)
  have f: "as_id ?r = 1" "as_user_id ?r = 1" "as_created_at ?r = 10" "as_expires_at ?r = 50"
    "as_verified ?r = True"
    by (simp_all add: alice_challenge_def)
  have "GetAuthSession (env_at 30 sid_two) session_store ''{6BA7B810-9DAD-11D1-80B4-00C04FD430C8}'' =
     Inr \<lparr>AuthSession_ID = 1, AuthSession_Username = [], AuthID = alice_auth_id,
          AuthSession_UserID = 1, ChallengeC = 11, CommitmentR1 = 13, CommitmentR2 = 17,
          AuthSession_CreatedAt = 10, AuthSession_ExpiresAt = 50, Verified = True\<rparr>"
    using C9_verified_still_readable [OF h1 h2 h3 h4 h5 h6, of 11 13 17] t
    by (simp add: f)
  then show ?thesis using h1 h2 h3 h4 h5 h6 t g by blast
qed

subsection \<open>Expiry: the reads and the sweep\<close>

lemma find_is_Some_list_ex: "(\<exists>x. find P xs = Some x) \<longleftrightarrow> list_ex P xs"
  by (induction xs) auto

text \<open>
  Claim C10. Both comparisons with the clock are strict. On a reachable server
  \<open>GetAuthSession\<close> and \<open>GetActiveSession\<close> return a record exactly when a row of the
  identifier has \<^verbatim>\<open>expires_at\<close> strictly after the clock, and
  \<open>CleanupExpiredSessions\<close> keeps exactly the rows whose \<^verbatim>\<open>expires_at\<close> is not strictly
  before it. So a row whose \<^verbatim>\<open>expires_at\<close> is the clock reading is not found by the
  read, and is still in its table after a sweep at that reading.
\<close>

theorem C10_strict_expiry:
  assumes "\<not> conn_fails e 0"
  shows "((\<exists>s. GetAuthSession e db authID = Inr s) \<longleftrightarrow>
            (\<exists>u. uuid_in authID = Some u \<and>
               list_ex (\<lambda>r. as_auth_id r = u \<and> now e < as_expires_at r) (auth_sessions db))) \<and>
         ((\<exists>s. GetActiveSession e db sessionID = Inr s) \<longleftrightarrow>
            (\<exists>u. uuid_in sessionID = Some u \<and>
               list_ex (\<lambda>r. ac_session_id r = u \<and> now e < ac_expires_at r) (active_sessions db))) \<and>
         CleanupExpiredSessions e db =
           (None, db\<lparr>auth_sessions := filter (\<lambda>r. now e \<le> as_expires_at r) (auth_sessions db),
                     active_sessions := filter (\<lambda>r. now e \<le> ac_expires_at r) (active_sessions db)\<rparr>) \<and>
         (a \<in> set (auth_sessions db) \<and> as_expires_at a = now e \<and>
          distinct (map as_auth_id (auth_sessions db)) \<and> uuid_in authID = Some (as_auth_id a) \<longrightarrow>
            GetAuthSession e db authID = Inl AuthSessionNotFoundOrExpired \<and>
            a \<in> set (auth_sessions (snd (CleanupExpiredSessions e db)))) \<and>
         (s \<in> set (active_sessions db) \<and> ac_expires_at s = now e \<and>
          distinct (map ac_session_id (active_sessions db)) \<and>
          uuid_in sessionID = Some (ac_session_id s) \<longrightarrow>
            GetActiveSession e db sessionID = Inl SessionNotFoundOrExpired \<and>
            s \<in> set (active_sessions (snd (CleanupExpiredSessions e db))))"
proof -
  have 1: "(\<exists>s. GetAuthSession e db authID = Inr s) \<longleftrightarrow>
            (\<exists>u. uuid_in authID = Some u \<and>
               list_ex (\<lambda>r. as_auth_id r = u \<and> now e < as_expires_at r) (auth_sessions db))"
    using assms
    by (simp add: GetAuthSession_def find_is_Some_list_ex [symmetric] split: option.split)
  have 2: "(\<exists>s. GetActiveSession e db sessionID = Inr s) \<longleftrightarrow>
            (\<exists>u. uuid_in sessionID = Some u \<and>
               list_ex (\<lambda>r. ac_session_id r = u \<and> now e < ac_expires_at r) (active_sessions db))"
    using assms
    by (simp add: GetActiveSession_def find_is_Some_list_ex [symmetric] split: option.split)
  have 3: "CleanupExpiredSessions e db =
           (None, db\<lparr>auth_sessions := filter (\<lambda>r. now e \<le> as_expires_at r) (auth_sessions db),
                     active_sessions := filter (\<lambda>r. now e \<le> ac_expires_at r) (active_sessions db)\<rparr>)"
    using assms
    by (simp add: CleanupExpiredSessions_def cleanup_expired_sessions_def not_less)
  have 4: "GetAuthSession e db authID = Inl AuthSessionNotFoundOrExpired \<and>
            a \<in> set (auth_sessions (snd (CleanupExpiredSessions e db)))"
    if h: "a \<in> set (auth_sessions db) \<and> as_expires_at a = now e \<and>
          distinct (map as_auth_id (auth_sessions db)) \<and> uuid_in authID = Some (as_auth_id a)"
  proof -
    have "find (\<lambda>x. as_auth_id x = as_auth_id a \<and> now e < as_expires_at x) (auth_sessions db) = None"
      using h by (intro find_expired_None) auto
    then show ?thesis using assms h by (simp add: GetAuthSession_def 3)
  qed
  have 5: "GetActiveSession e db sessionID = Inl SessionNotFoundOrExpired \<and>
            s \<in> set (active_sessions (snd (CleanupExpiredSessions e db)))"
    if h: "s \<in> set (active_sessions db) \<and> ac_expires_at s = now e \<and>
          distinct (map ac_session_id (active_sessions db)) \<and>
          uuid_in sessionID = Some (ac_session_id s)"
  proof -
    have "find (\<lambda>x. ac_session_id x = ac_session_id s \<and> now e < ac_expires_at x) (active_sessions db) = None"
      using h by (intro find_expired_None) auto
    then show ?thesis using assms h by (simp add: GetActiveSession_def 3)
  qed
  show ?thesis using 1 2 3 4 5 by blast
qed

text \<open>
  The theorem at time 50 on the store whose challenge and session both expire at
  50: neither is readable, and the sweep at 50 removes nothing; the sweep at 51
  removes both.
\<close>

theorem C10_strict_expiry_witness:
  "\<not> conn_fails (env_at 50 sid_two) 0 \<and>
   session_store = snd (CreateActiveSession (env_at 20 sid_one) alice_store alice_auth_id 30) \<and>
   alice_challenge\<lparr>as_verified := True\<rparr> \<in> set (auth_sessions session_store) \<and>
   as_expires_at (alice_challenge\<lparr>as_verified := True\<rparr>) = now (env_at 50 sid_two) \<and>
   distinct (map as_auth_id (auth_sessions session_store)) \<and>
   uuid_in alice_auth_id = Some (as_auth_id (alice_challenge\<lparr>as_verified := True\<rparr>)) \<and>
   alice_session \<in> set (active_sessions session_store) \<and>
   ac_expires_at alice_session = now (env_at 50 sid_two) \<and>
   distinct (map ac_session_id (active_sessions session_store)) \<and>
   uuid_in sid_one = Some (ac_session_id alice_session) \<and>
   GetAuthSession (env_at 50 sid_two) session_store alice_auth_id = Inl AuthSessionNotFoundOrExpired \<and>
   alice_challenge\<lparr>as_verified := True\<rparr> \<in>
     set (auth_sessions (snd (CleanupExpiredSessions (env_at 50 sid_two) session_store))) \<and>
   GetActiveSession (env_at 50 sid_two) session_store sid_one = Inl SessionNotFoundOrExpired \<and>
   alice_session \<in>
     set (active_sessions (snd (CleanupExpiredSessions (env_at 50 sid_two) session_store))) \<and>
   CleanupExpiredSessions (env_at 50 sid_two) session_store = (None, session_store) \<and>
   CleanupExpiredSessions (env_at 51 sid_two) session_store =
     (None, session_store\<lparr>auth_sessions := [], active_sessions := []\<rparr>)"
proof -
  let ?e = "env_at 50 sid_two"
  let ?a = "alice_challenge\<lparr>as_verified := True\<rparr>"
  have h0: "\<not> conn_fails ?e 0" by (simp add: sample_defs)
  have g: "session_store = snd (CreateActiveSession (env_at 20 sid_one) alice_store alice_auth_id 30)"
    by (simp add: CreateActiveSession_def update_verified_def insert_active_sessions_def
        uuid_eval sample_defs)
  have n: "as_auth_id ?a = alice_auth_id" "ac_session_id alice_session = sid_one"
    by (simp_all add: alice_challenge_def alice_session_def)
  have h1: "?a \<in> set (auth_sessions session_store) \<and> as_expires_at ?a = now ?e \<and>
      distinct (map as_auth_id (auth_sessions session_store)) \<and>
      uuid_in alice_auth_id = Some (as_auth_id ?a)"
    by (simp add: n uuid_in_samples) (simp add: session_store_def alice_challenge_def env_at_def)
  have h2: "alice_session \<in> set (active_sessions session_store) \<and>
      ac_expires_at alice_session = now ?e \<and>
      distinct (map ac_session_id (active_sessions session_store)) \<and>
      uuid_in sid_one = Some (ac_session_id alice_session)"
    by (simp add: n uuid_in_samples) (simp add: session_store_def alice_session_def env_at_def)
  have k: "CleanupExpiredSessions ?e session_store = (None, session_store)"
    "CleanupExpiredSessions (env_at 51 sid_two) session_store =
       (None, session_store\<lparr>auth_sessions := [], active_sessions := []\<rparr>)"
    by (simp_all add: CleanupExpiredSessions_def cleanup_expired_sessions_def sample_defs)
  have c: "GetAuthSession ?e session_store alice_auth_id = Inl AuthSessionNotFoundOrExpired \<and>
      ?a \<in> set (auth_sessions (snd (CleanupExpiredSessions ?e session_store))) \<and>
      GetActiveSession ?e session_store sid_one = Inl SessionNotFoundOrExpired \<and>
      alice_session \<in> set (active_sessions (snd (CleanupExpiredSessions ?e session_store)))"
    using C10_strict_expiry [OF h0, of session_store alice_auth_id sid_one ?a alice_session] h1 h2
    by blast
  show ?thesis using h0 g h1 h2 c k by blast
qed

end
